theory Spec2Isabelle
  imports Complex_Main "HOL-Library.Char_ord" "HOL-Library.List_Lexorder"
begin

section \<open>Values, exceptions and the control network\<close>

text \<open>
  The configuration fields typed \<open>Any\<close> and the values of process variables are Python
  objects. The model keeps the kinds that occur in the repository's configurations:
  integers, strings and \<open>None\<close>. \<open>caget\<close> returns \<open>None\<close> for a process variable that
  cannot be read.
\<close>

datatype pyval = PyNone | PyInt int | PyStr string

text \<open>
  The exceptions of the model: the ones the modelled statements raise themselves,
  \<open>ChannelAccessError\<close> for whatever the channel-access library raises, and
  \<open>KeyboardInterrupt\<close> and \<open>SystemExit\<close>, which Python raises in a running call on a signal
  or on exit and which derive from \<open>BaseException\<close> only.
\<close>

datatype exn =
    AttributeError
  | TypeError
  | ValueError
  | NotImplementedError
  | AssertionError
  | ChannelAccessError string
  | KeyboardInterrupt
  | SystemExit

text \<open>\<open>isinstance(ex, Exception)\<close>: what a clause \<open>except Exception\<close> catches.\<close>

fun isinstance_Exception :: "exn \<Rightarrow> bool" where
  "isinstance_Exception KeyboardInterrupt = False"
| "isinstance_Exception SystemExit = False"
| "isinstance_Exception _ = True"

datatype level = DEBUG | WARNING | ERROR

datatype fragment = Txt string | Val pyval | Exn exn

datatype event =
    Caget string
  | Caput string pyval
  | Sleep rat
  | Log level "fragment list"

text \<open>
  The control network: the current value of every process variable (\<open>PyNone\<close> when it is
  unavailable), the keys on which the library raises instead of answering, and the trace
  of what the program did to the outside, in order.
\<close>

record world =
  pvs :: "string \<Rightarrow> pyval"
  caget_fault :: "string \<Rightarrow> exn option"
  caput_fault :: "string \<Rightarrow> exn option"
  trace :: "event list"

text \<open>
  A statement of the program is a function from the world to a result and the world
  after it. The result is \<open>Inl\<close> of the exception when the statement raises; the effects
  made before the exception stay.
\<close>

type_synonym ('s, 'a) eff = "'s \<Rightarrow> (exn + 'a) \<times> 's"

definition eff_return :: "'a \<Rightarrow> ('s, 'a) eff" where
  "eff_return x = (\<lambda>s. (Inr x, s))"

definition eff_raise :: "exn \<Rightarrow> ('s, 'a) eff" where
  "eff_raise e = (\<lambda>s. (Inl e, s))"

text \<open>An expression without effects that may raise.\<close>

definition lift :: "exn + 'a \<Rightarrow> ('s, 'a) eff" where
  "lift r = (\<lambda>s. (r, s))"

definition eff_bind :: "('s, 'a) eff \<Rightarrow> ('a \<Rightarrow> ('s, 'b) eff) \<Rightarrow> ('s, 'b) eff" where
  "eff_bind m f = (\<lambda>s. case m s of (Inl e, s') \<Rightarrow> (Inl e, s') | (Inr x, s') \<Rightarrow> f x s')"

definition emit :: "event \<Rightarrow> (world, unit) eff" where
  "emit ev = (\<lambda>w. (Inr (), w\<lparr>trace := trace w @ [ev]\<rparr>))"

definition caget :: "string \<Rightarrow> (world, pyval) eff" where
  "caget key = eff_bind (emit (Caget key)) (\<lambda>_ w.
     case caget_fault w key of
       Some e \<Rightarrow> (Inl e, w)
     | None \<Rightarrow> (Inr (pvs w key), w))"

definition caput :: "string \<Rightarrow> pyval \<Rightarrow> (world, unit) eff" where
  "caput key v = eff_bind (emit (Caput key v)) (\<lambda>_ w.
     case caput_fault w key of
       Some e \<Rightarrow> (Inl e, w)
     | None \<Rightarrow> (Inr (), w\<lparr>pvs := (pvs w)(key := v)\<rparr>))"

text \<open>\<open>time.sleep\<close> raises \<open>ValueError\<close> on a negative length.\<close>

definition sleep :: "rat \<Rightarrow> (world, unit) eff" where
  "sleep secs = (if secs < 0 then eff_raise ValueError else emit (Sleep secs))"

definition logger :: "level \<Rightarrow> fragment list \<Rightarrow> (world, unit) eff" where
  "logger lv msg = emit (Log lv msg)"

section \<open>Comparison operators\<close>

datatype ConditionOperator =
  equal_op | not_equal | less_op | greater_op | less_equal | greater_equal

fun ConditionOperator_value :: "ConditionOperator \<Rightarrow> string" where
  "ConditionOperator_value equal_op = ''eq''"
| "ConditionOperator_value not_equal = ''ne''"
| "ConditionOperator_value less_op = ''lt''"
| "ConditionOperator_value greater_op = ''gt''"
| "ConditionOperator_value less_equal = ''le''"
| "ConditionOperator_value greater_equal = ''ge''"

text \<open>
  Python's comparisons: \<open>==\<close> and \<open>!=\<close> are defined between any two objects; the
  orderings are defined between two integers and between two strings, and raise
  \<open>TypeError\<close> otherwise.
\<close>

fun py_eq :: "pyval \<Rightarrow> pyval \<Rightarrow> exn + bool" where
  "py_eq a b = Inr (a = b)"

fun py_ne :: "pyval \<Rightarrow> pyval \<Rightarrow> exn + bool" where
  "py_ne a b = Inr (a \<noteq> b)"

fun py_lt :: "pyval \<Rightarrow> pyval \<Rightarrow> exn + bool" where
  "py_lt (PyInt a) (PyInt b) = Inr (a < b)"
| "py_lt (PyStr a) (PyStr b) = Inr (a < b)"
| "py_lt _ _ = Inl TypeError"

fun py_gt :: "pyval \<Rightarrow> pyval \<Rightarrow> exn + bool" where
  "py_gt (PyInt a) (PyInt b) = Inr (a > b)"
| "py_gt (PyStr a) (PyStr b) = Inr (a > b)"
| "py_gt _ _ = Inl TypeError"

fun py_le :: "pyval \<Rightarrow> pyval \<Rightarrow> exn + bool" where
  "py_le (PyInt a) (PyInt b) = Inr (a \<le> b)"
| "py_le (PyStr a) (PyStr b) = Inr (a \<le> b)"
| "py_le _ _ = Inl TypeError"

fun py_ge :: "pyval \<Rightarrow> pyval \<Rightarrow> exn + bool" where
  "py_ge (PyInt a) (PyInt b) = Inr (a \<ge> b)"
| "py_ge (PyStr a) (PyStr b) = Inr (a \<ge> b)"
| "py_ge _ _ = Inl TypeError"

text \<open>\<open>getattr(operator, name)\<close>: the functions of the \<open>operator\<close> module by name.\<close>

definition getattr_operator :: "string \<Rightarrow> exn + (pyval \<Rightarrow> pyval \<Rightarrow> exn + bool)" where
  "getattr_operator nm =
     (if nm = ''eq'' then Inr py_eq
      else if nm = ''ne'' then Inr py_ne
      else if nm = ''lt'' then Inr py_lt
      else if nm = ''gt'' then Inr py_gt
      else if nm = ''le'' then Inr py_le
      else if nm = ''ge'' then Inr py_ge
      else Inl AttributeError)"

section \<open>Condition items\<close>

datatype cond_item =
    ConditionItem string string string pyval ConditionOperator
  | SequenceConditionItem string string bool "cond_item list"
  | RangeConditionItem string string bool string pyval pyval
  | UseCheckConditionItem string string string

fun item_name :: "cond_item \<Rightarrow> string" where
  "item_name (ConditionItem n d p v ope) = n"
| "item_name (SequenceConditionItem n d m cs) = n"
| "item_name (RangeConditionItem n d m p lo hi) = n"
| "item_name (UseCheckConditionItem n d c) = n"

text \<open>The attribute \<open>pv\<close>: only the leaf and the range item have it.\<close>

fun item_pv :: "cond_item \<Rightarrow> exn + string" where
  "item_pv (ConditionItem n d p v ope) = Inr p"
| "item_pv (RangeConditionItem n d m p lo hi) = Inr p"
| "item_pv (SequenceConditionItem n d m cs) = Inl AttributeError"
| "item_pv (UseCheckConditionItem n d c) = Inl AttributeError"

type_synonym 's cond_fn = "('s, bool) eff"

text \<open>The closure \<open>cond_func\<close> of \<open>ConditionItem.get_condition_function\<close>.\<close>

definition leaf_cond_func ::
  "string \<Rightarrow> pyval \<Rightarrow> (pyval \<Rightarrow> pyval \<Rightarrow> exn + bool) \<Rightarrow> world cond_fn" where
  "leaf_cond_func pv target ope =
     eff_bind (caget pv) (\<lambda>val.
       if val = PyNone then eff_return False
       else lift (ope val target))"

text \<open>
  The closure \<open>cond_func\<close> of \<open>SequenceConditionItem.get_condition_function\<close>: the loop
  over \<open>child_funcs\<close> with its accumulator \<open>ok\<close>; \<open>ok and cf()\<close> calls \<open>cf\<close> only when
  \<open>ok\<close> is true.
\<close>

fun seq_loop :: "bool \<Rightarrow> 's cond_fn list \<Rightarrow> 's cond_fn" where
  "seq_loop ok [] s = (Inr ok, s)"
| "seq_loop ok (cf # cfs) s =
     (case (if ok then cf s else (Inr False, s)) of
        (Inl e, s') \<Rightarrow> (Inl e, s')
      | (Inr ok', s') \<Rightarrow> if \<not> ok' then (Inr ok', s') else seq_loop ok' cfs s')"

definition seq_cond_func :: "'s cond_fn list \<Rightarrow> 's cond_fn" where
  "seq_cond_func child_funcs = seq_loop True child_funcs"

text \<open>A list comprehension over calls that may raise stops at the first exception.\<close>

fun collect :: "(exn + 'a) list \<Rightarrow> exn + 'a list" where
  "collect [] = Inr []"
| "collect (Inl e # rs) = Inl e"
| "collect (Inr x # rs) = (case collect rs of Inl e \<Rightarrow> Inl e | Inr xs \<Rightarrow> Inr (x # xs))"


text \<open>\<open>RangeConditionItem._generate_subconfig\<close>.\<close>

definition generate_subconfig ::
  "string \<Rightarrow> string \<Rightarrow> bool \<Rightarrow> string \<Rightarrow> pyval \<Rightarrow> pyval \<Rightarrow> cond_item" where
  "generate_subconfig n d m p lo hi =
     SequenceConditionItem n d m
       [ConditionItem (n @ ''_lower_bound'') (''Lower bound for '' @ n @ '' check'') p lo
          greater_equal,
        ConditionItem (n @ ''_upper_bound'') (''Upper bound for '' @ n @ '' check'') p hi
          less_equal]"

text \<open>
  A range item delegates to the sequence item it generates, which is not one of its
  parts: the recursion below descends along this weight.
\<close>

fun weight :: "cond_item \<Rightarrow> nat" where
  "weight (ConditionItem n d p v ope) = 1"
| "weight (SequenceConditionItem n d m cs) = Suc (sum_list (map weight cs))"
| "weight (RangeConditionItem n d m p lo hi) = 4"
| "weight (UseCheckConditionItem n d c) = 1"

text \<open>
  \<open>get_condition_function\<close> of each class of \<open>AnyConditionItem\<close>. The marker class
  \<open>UseCheckConditionItem\<close> has no such method.
\<close>

function get_condition_function :: "cond_item \<Rightarrow> exn + world cond_fn" where
  "get_condition_function (ConditionItem n d p v ope) =
     (case getattr_operator (ConditionOperator_value ope) of
        Inl e \<Rightarrow> Inl e
      | Inr f \<Rightarrow> Inr (leaf_cond_func p v f))"
| "get_condition_function (SequenceConditionItem n d m cs) =
     (case collect (map get_condition_function cs) of
        Inl e \<Rightarrow> Inl e
      | Inr child_funcs \<Rightarrow> Inr (seq_cond_func child_funcs))"
| "get_condition_function (RangeConditionItem n d m p lo hi) =
     get_condition_function (generate_subconfig n d m p lo hi)"
| "get_condition_function (UseCheckConditionItem n d c) = Inl AttributeError"
  by pat_completeness auto
termination
proof (relation "measure weight")
  show "wf (measure weight)" by simp
next
  fix n d :: string and m :: bool and cs :: "cond_item list" and c :: cond_item
  assume "c \<in> set cs"
  then have "weight c \<le> sum_list (map weight cs)"
    by (induction cs) auto
  then show "(c, SequenceConditionItem n d m cs) \<in> measure weight" by simp
next
  fix n d p :: string and m :: bool and lo hi :: pyval
  show "(generate_subconfig n d m p lo hi, RangeConditionItem n d m p lo hi) \<in> measure weight"
    by (simp add: generate_subconfig_def)
qed

section \<open>Tree nodes\<close>

datatype Status = SUCCESS | FAILURE | RUNNING | INVALID

type_synonym work_fn = "world cond_fn \<Rightarrow> (world, Status) eff"

datatype node =
    ConditionNode string "world cond_fn"
  | Sequence string bool "node list"
  | ActionNode string work_fn "world cond_fn"
  | CheckAndDo string node node

text \<open>
  \<open>get_tree\<close> of the condition items. For the sequence item this is
  \<open>get_sequence_tree\<close>; the marker item inherits \<open>BaseItem.get_tree\<close>.
\<close>

function get_tree_cond :: "cond_item \<Rightarrow> exn + node" where
  "get_tree_cond (ConditionItem n d p v ope) =
     (case get_condition_function (ConditionItem n d p v ope) of
        Inl e \<Rightarrow> Inl e
      | Inr cond_func \<Rightarrow> Inr (ConditionNode n cond_func))"
| "get_tree_cond (SequenceConditionItem n d m cs) =
     (case collect (map get_tree_cond cs) of
        Inl e \<Rightarrow> Inl e
      | Inr children \<Rightarrow> Inr (Sequence n m children))"
| "get_tree_cond (RangeConditionItem n d m p lo hi) =
     get_tree_cond (generate_subconfig n d m p lo hi)"
| "get_tree_cond (UseCheckConditionItem n d c) = Inl NotImplementedError"
  by pat_completeness auto
termination
proof (relation "measure weight")
  show "wf (measure weight)" by simp
next
  fix n d :: string and m :: bool and cs :: "cond_item list" and c :: cond_item
  assume "c \<in> set cs"
  then have "weight c \<le> sum_list (map weight cs)"
    by (induction cs) auto
  then show "(c, SequenceConditionItem n d m cs) \<in> measure weight" by simp
next
  fix n d p :: string and m :: bool and lo hi :: pyval
  show "(generate_subconfig n d m p lo hi, RangeConditionItem n d m p lo hi) \<in> measure weight"
    by (simp add: generate_subconfig_def)
qed

section \<open>Action items and their work routines\<close>

datatype action_item =
    SetPVActionItem string string string pyval rat cond_item
  | IncPVActionItem string string string int rat cond_item

fun action_name :: "action_item \<Rightarrow> string" where
  "action_name (SetPVActionItem n d p v period tc) = n"
| "action_name (IncPVActionItem n d p inc period tc) = n"

fun termination_check :: "action_item \<Rightarrow> cond_item" where
  "termination_check (SetPVActionItem n d p v period tc) = tc"
| "termination_check (IncPVActionItem n d p inc period tc) = tc"

fun set_termination_check :: "action_item \<Rightarrow> cond_item \<Rightarrow> action_item" where
  "set_termination_check (SetPVActionItem n d p v period tc) tc' =
     SetPVActionItem n d p v period tc'"
| "set_termination_check (IncPVActionItem n d p inc period tc) tc' =
     IncPVActionItem n d p inc period tc'"

text \<open>\<open>value + self.increment\<close>: defined on a number, \<open>TypeError\<close> on a string and on \<open>None\<close>.\<close>

fun py_add :: "pyval \<Rightarrow> int \<Rightarrow> exn + pyval" where
  "py_add (PyInt a) inc = Inr (PyInt (a + inc))"
| "py_add (PyStr a) inc = Inl TypeError"
| "py_add PyNone inc = Inl TypeError"

text \<open>
  \<open>try: ... except Exception as ex: logger.warning(...); return FAILURE\<close> around the
  body of a work routine. An exception that is not an instance of \<open>Exception\<close> passes
  through the clause.
\<close>

definition try_except :: "string \<Rightarrow> (world, Status) eff \<Rightarrow> (world, Status) eff" where
  "try_except name body = (\<lambda>w.
     case body w of
       (Inr st, w') \<Rightarrow> (Inr st, w')
     | (Inl ex, w') \<Rightarrow>
         if isinstance_Exception ex
         then eff_bind (logger WARNING [Txt name, Txt '': work failed: '', Exn ex])
                (\<lambda>_. eff_return FAILURE) w'
         else (Inl ex, w'))"

text \<open>The statements inside \<open>try\<close> of \<open>SetPVActionItem.get_tree.work_func\<close>.\<close>

definition SetPV_work_body ::
  "string \<Rightarrow> string \<Rightarrow> pyval \<Rightarrow> rat \<Rightarrow> cond_item \<Rightarrow> work_fn" where
  "SetPV_work_body name pv target loop_period_sec tc comp_condition =
     eff_bind (lift (item_pv tc)) (\<lambda>key.
     eff_bind (caget key) (\<lambda>val.
     eff_bind comp_condition (\<lambda>finished.
       if finished then eff_return SUCCESS
       else
         eff_bind (logger DEBUG [Txt name, Txt '': Value is '', Val val]) (\<lambda>_.
         eff_bind (caput pv target) (\<lambda>_.
         eff_bind (sleep loop_period_sec) (\<lambda>_.
         eff_return RUNNING))))))"

definition SetPV_work_func ::
  "string \<Rightarrow> string \<Rightarrow> pyval \<Rightarrow> rat \<Rightarrow> cond_item \<Rightarrow> work_fn" where
  "SetPV_work_func name pv target loop_period_sec tc comp_condition =
     try_except name (SetPV_work_body name pv target loop_period_sec tc comp_condition)"

text \<open>The statements inside \<open>try\<close> of \<open>IncPVActionItem.get_tree.work_func\<close>.\<close>

definition IncPV_work_body :: "string \<Rightarrow> string \<Rightarrow> int \<Rightarrow> rat \<Rightarrow> work_fn" where
  "IncPV_work_body name pv increment loop_period_sec comp_condition =
     eff_bind (caget pv) (\<lambda>val.
     eff_bind (logger DEBUG [Txt ''(wf) '', Txt name, Txt '': Value is '', Val val]) (\<lambda>_.
     eff_bind comp_condition (\<lambda>finished.
       if finished then eff_return SUCCESS
       else
         eff_bind (lift (py_add val increment)) (\<lambda>new.
         eff_bind (caput pv new) (\<lambda>_.
         eff_bind (sleep loop_period_sec) (\<lambda>_.
         eff_return RUNNING))))))"

definition IncPV_work_func :: "string \<Rightarrow> string \<Rightarrow> int \<Rightarrow> rat \<Rightarrow> work_fn" where
  "IncPV_work_func name pv increment loop_period_sec comp_condition =
     try_except name (IncPV_work_body name pv increment loop_period_sec comp_condition)"

text \<open>\<open>get_tree\<close> of the two action items.\<close>

fun get_tree_action :: "action_item \<Rightarrow> exn + node" where
  "get_tree_action (SetPVActionItem n d p v period tc) =
     (case get_condition_function tc of
        Inl e \<Rightarrow> Inl e
      | Inr comp_cond \<Rightarrow> Inr (ActionNode n (SetPV_work_func n p v period tc) comp_cond))"
| "get_tree_action (IncPVActionItem n d p inc period tc) =
     (case get_condition_function tc of
        Inl e \<Rightarrow> Inl e
      | Inr comp_cond \<Rightarrow> Inr (ActionNode n (IncPV_work_func n p inc period) comp_cond))"

section \<open>Check-and-do items over a store of action objects\<close>

text \<open>
  \<open>CheckAndDoItem\<close> assigns to a field of the action object it was given, so the action
  objects live in a store: a reference is an index, \<open>copy\<close> allocates at the end. The
  condition items are never assigned to and are kept by value.
\<close>

type_synonym store = "action_item list"

record CheckAndDoItem =
  cad_name :: string
  cad_description :: string
  cad_check :: cond_item
  cad_do :: nat

fun isinstance_UseCheckConditionItem :: "cond_item \<Rightarrow> bool" where
  "isinstance_UseCheckConditionItem (UseCheckConditionItem n d c) = True"
| "isinstance_UseCheckConditionItem _ = False"

definition new_UseCheckConditionItem :: cond_item where
  "new_UseCheckConditionItem = UseCheckConditionItem [] [] ''previous check''"

definition new_ConditionItem :: cond_item where
  "new_ConditionItem = ConditionItem [] [] [] (PyInt 1) equal_op"

text \<open>\<open>self.do.termination_check = item\<close>: an assignment through the reference.\<close>

definition assign_termination_check :: "nat \<Rightarrow> cond_item \<Rightarrow> store \<Rightarrow> store" where
  "assign_termination_check r item h = h[r := set_termination_check (h ! r) item]"

definition post_init :: "CheckAndDoItem \<Rightarrow> store \<Rightarrow> store" where
  "post_init self h =
     (if item_name (termination_check (h ! cad_do self)) = []
      then assign_termination_check (cad_do self) new_UseCheckConditionItem h
      else h)"

text \<open>The constructor the dataclass generates: store the fields, then \<open>__post_init__\<close>.\<close>

definition CheckAndDoItem_init ::
  "string \<Rightarrow> string \<Rightarrow> cond_item \<Rightarrow> nat \<Rightarrow> store \<Rightarrow> CheckAndDoItem \<times> store" where
  "CheckAndDoItem_init n d chk do_ref h =
     (let self = \<lparr>cad_name = n, cad_description = d, cad_check = chk, cad_do = do_ref\<rparr>
      in (self, post_init self h))"

text \<open>\<open>copy(obj)\<close>: a new object with the same fields.\<close>

definition copy :: "nat \<Rightarrow> store \<Rightarrow> nat \<times> store" where
  "copy r h = (length h, h @ [h ! r])"

definition CheckAndDoItem_get_tree :: "CheckAndDoItem \<Rightarrow> store \<Rightarrow> (exn + node) \<times> store" where
  "CheckAndDoItem_get_tree self h =
     (let (active_do, h') =
        (if isinstance_UseCheckConditionItem (termination_check (h ! cad_do self))
         then (let (c, h1) = copy (cad_do self) h
               in (c, assign_termination_check c (cad_check self) h1))
         else (cad_do self, h))
      in case get_tree_cond (cad_check self) of
           Inl e \<Rightarrow> (Inl e, h')
         | Inr check_node \<Rightarrow>
             (case get_tree_action (h' ! active_do) of
                Inl e \<Rightarrow> (Inl e, h')
              | Inr do_node \<Rightarrow> (Inr (CheckAndDo (cad_name self) check_node do_node), h')))"

fun get_tree_times :: "nat \<Rightarrow> CheckAndDoItem \<Rightarrow> store \<Rightarrow> store" where
  "get_tree_times 0 self h = h"
| "get_tree_times (Suc k) self h = get_tree_times k self (snd (CheckAndDoItem_get_tree self h))"

section \<open>Worker\<close>

text \<open>
  The \<open>multiprocessing.Process\<close> object a worker owns, as the parent sees it: \<open>start\<close>
  on a process that was started fails its assertion, \<open>terminate\<close> needs a started
  process, \<open>join\<close> asserts one.
\<close>

datatype process = Initial | Alive | Signalled | Reaped

fun process_start :: "process \<Rightarrow> exn + process" where
  "process_start Initial = Inr Alive"
| "process_start _ = Inl AssertionError"

fun process_terminate :: "process \<Rightarrow> exn + process" where
  "process_terminate Initial = Inl AttributeError"
| "process_terminate Alive = Inr Signalled"
| "process_terminate Signalled = Inr Signalled"
| "process_terminate Reaped = Inr Reaped"

fun process_join :: "process \<Rightarrow> exn + process" where
  "process_join Initial = Inl AssertionError"
| "process_join _ = Inr Reaped"

datatype action =
    Logged level "fragment list"
  | FlagSet bool
  | Launched
  | TerminateSent
  | StopFuncCalled
  | Joined

text \<open>
  A worker: the shared flag \<open>do_work\<close>, the process, the optional callback \<open>stop_func\<close>
  (any procedure on the state \<open>outside\<close> of the worker; it may raise), the process id
  \<open>os_pid\<close> that the operating system gives the process when it is launched, and the
  record of what the worker's methods did, in order.
\<close>

record 'e Worker =
  do_work :: bool
  proc_name :: string
  work_proc :: process
  stop_func :: "('e, unit) eff option"
  outside :: 'e
  os_pid :: int
  acts :: "action list"

definition Worker_init :: "string \<Rightarrow> ('e, unit) eff option \<Rightarrow> 'e \<Rightarrow> int \<Rightarrow> 'e Worker" where
  "Worker_init nm sf env child =
     \<lparr>do_work = False, proc_name = nm, work_proc = Initial, stop_func = sf,
      outside = env, os_pid = child, acts = []\<rparr>"

text \<open>\<open>self.work_proc.pid\<close>: \<open>None\<close> before the process is started.\<close>

definition work_proc_pid :: "'e Worker \<Rightarrow> pyval" where
  "work_proc_pid w = (case work_proc w of Initial \<Rightarrow> PyNone | _ \<Rightarrow> PyInt (os_pid w))"

definition act :: "action \<Rightarrow> ('e Worker, unit) eff" where
  "act a = (\<lambda>w. (Inr (), w\<lparr>acts := acts w @ [a]\<rparr>))"

definition set_do_work :: "bool \<Rightarrow> ('e Worker, unit) eff" where
  "set_do_work b = (\<lambda>w. (Inr (), w\<lparr>do_work := b, acts := acts w @ [FlagSet b]\<rparr>))"

definition work_proc_start :: "('e Worker, unit) eff" where
  "work_proc_start = (\<lambda>w.
     case process_start (work_proc w) of
       Inl e \<Rightarrow> (Inl e, w)
     | Inr p \<Rightarrow> (Inr (), w\<lparr>work_proc := p, acts := acts w @ [Launched]\<rparr>))"

definition work_proc_terminate :: "('e Worker, unit) eff" where
  "work_proc_terminate = (\<lambda>w.
     case process_terminate (work_proc w) of
       Inl e \<Rightarrow> (Inl e, w)
     | Inr p \<Rightarrow> (Inr (), w\<lparr>work_proc := p, acts := acts w @ [TerminateSent]\<rparr>))"

definition work_proc_join :: "('e Worker, unit) eff" where
  "work_proc_join = (\<lambda>w.
     case process_join (work_proc w) of
       Inl e \<Rightarrow> (Inl e, w)
     | Inr p \<Rightarrow> (Inr (), w\<lparr>work_proc := p, acts := acts w @ [Joined]\<rparr>))"

definition call_stop_func :: "('e, unit) eff \<Rightarrow> ('e Worker, unit) eff" where
  "call_stop_func f = (\<lambda>w.
     case f (outside w) of
       (r, env) \<Rightarrow> (r, w\<lparr>outside := env, acts := acts w @ [StopFuncCalled]\<rparr>))"

definition start_work :: "('e Worker, unit) eff" where
  "start_work = (\<lambda>w.
     if do_work w
     then act (Logged ERROR [Txt ''Already working, not starting work'']) w
     else
       eff_bind (set_do_work True) (\<lambda>_.
       eff_bind work_proc_start (\<lambda>_.
       act (Logged DEBUG [Txt ''Starting work'']))) w)"

definition stop_work :: "('e Worker, unit) eff" where
  "stop_work = (\<lambda>w.
     eff_bind (act (Logged DEBUG [Txt ''Calling stop work on '', Txt (proc_name w)])) (\<lambda>_ w1.
       if \<not> do_work w1
       then act (Logged ERROR [Txt ''Not working, not stopping work on '', Txt (proc_name w)]) w1
       else
         eff_bind (set_do_work False) (\<lambda>_.
         eff_bind (act (Logged DEBUG
                     [Txt ''Sending terminate signal to process '', Txt (proc_name w),
                      Txt '' : '', Val (work_proc_pid w)])) (\<lambda>_.
         eff_bind work_proc_terminate (\<lambda>_.
         eff_bind (case stop_func w of None \<Rightarrow> eff_return () | Some f \<Rightarrow> call_stop_func f) (\<lambda>_.
         eff_bind (act (Logged DEBUG [Txt ''Ending work, calling join on '', Txt (proc_name w)])) (\<lambda>_.
         eff_bind work_proc_join (\<lambda>_.
         act (Logged DEBUG [Txt ''Worker process joined from '', Txt (proc_name w)]))))))) w1) w)"

datatype call = Start | Stop

text \<open>A caller making a sequence of calls; an exception that a call raises is dropped.\<close>

fun calls :: "call list \<Rightarrow> 'e Worker \<Rightarrow> 'e Worker" where
  "calls [] w = w"
| "calls (Start # cs) w = calls cs (snd (start_work w))"
| "calls (Stop # cs) w = calls cs (snd (stop_work w))"

text \<open>The number of processes a worker has launched.\<close>

definition launches :: "'e Worker \<Rightarrow> nat" where
  "launches w = length (filter (\<lambda>a. a = Launched) (acts w))"

section \<open>Observing which children a conjunction calls\<close>

text \<open>
  Call-count instrumentation: \<open>probe i cf\<close> behaves as \<open>cf\<close> and appends its index and
  its result to a list of calls kept beside the state.
\<close>

definition probe :: "nat \<Rightarrow> 's cond_fn \<Rightarrow> ('s \<times> (nat \<times> (exn + bool)) list) cond_fn" where
  "probe i cf = (\<lambda>(s, record). case cf s of (r, s') \<Rightarrow> (r, (s', record @ [(i, r)])))"

definition instrument :: "'s cond_fn list \<Rightarrow> ('s \<times> (nat \<times> (exn + bool)) list) cond_fn list" where
  "instrument cfs = map (\<lambda>(i, cf). probe i cf) (enumerate 0 cfs)"

section \<open>The evaluation protocol in the words of the specification\<close>

text \<open>The six comparisons by operator, on a value that was read and a target.\<close>

fun compare :: "ConditionOperator \<Rightarrow> pyval \<Rightarrow> pyval \<Rightarrow> exn + bool" where
  "compare equal_op a b = py_eq a b"
| "compare not_equal a b = py_ne a b"
| "compare less_op a b = py_lt a b"
| "compare greater_op a b = py_gt a b"
| "compare less_equal a b = py_le a b"
| "compare greater_equal a b = py_ge a b"

text \<open>
  A leaf comparison: read the external value by key; if unreadable, false; else apply
  the comparison against the target.
\<close>

definition spec_comparison :: "string \<Rightarrow> ConditionOperator \<Rightarrow> pyval \<Rightarrow> world cond_fn" where
  "spec_comparison key ope target =
     eff_bind (caget key) (\<lambda>v. if v = PyNone then eff_return False else lift (compare ope v target))"

text \<open>
  A conjunction: children in declared order, false at the first false child, true when
  all were true.
\<close>

fun spec_conjunction :: "'s cond_fn list \<Rightarrow> 's cond_fn" where
  "spec_conjunction [] = eff_return True"
| "spec_conjunction (c # cs) =
     eff_bind c (\<lambda>b. if b then spec_conjunction cs else eff_return False)"

text \<open>A range: the conjunction of [value \<open>\<ge>\<close> low] and [value \<open>\<le>\<close> high] over one key.\<close>

definition spec_range :: "string \<Rightarrow> pyval \<Rightarrow> pyval \<Rightarrow> world cond_fn" where
  "spec_range key low high =
     spec_conjunction [spec_comparison key greater_equal low, spec_comparison key less_equal high]"


section \<open>Configurations of the test artifacts\<close>

text \<open>A control network without faults and with an empty trace.\<close>

definition network :: "(string \<Rightarrow> pyval) \<Rightarrow> world" where
  "network f = \<lparr>pvs = f, caget_fault = (\<lambda>_. None), caput_fault = (\<lambda>_. None), trace = []\<rparr>"

text \<open>\<open>create_egg_1\<close>: the check and the action of \<open>self_test\<close>.\<close>

definition egg_1_check :: cond_item where
  "egg_1_check = ConditionItem ''self_test_check'' [] ''PERC:COMP'' (PyInt 100) greater_equal"

definition egg_1_do :: action_item where
  "egg_1_do = IncPVActionItem ''self_test_do'' [] ''PERC:COMP'' 10 (1 / 100) new_ConditionItem"

text \<open>\<open>create_egg_2\<close>: the check and the action of \<open>ret_find\<close>.\<close>

definition egg_2_check :: cond_item where
  "egg_2_check = ConditionItem ''ret_find_check'' [] ''RET:FOUND'' (PyInt 1) greater_equal"

definition egg_2_do :: action_item where
  "egg_2_do = SetPVActionItem ''ret_find_do'' [] ''RET:FOUND'' (PyInt 1) (1 / 100) new_ConditionItem"


text \<open>
  A \<open>SetPVActionItem\<close> whose termination check is a \<open>SequenceConditionItem\<close> over the
  check of \<open>ret_find\<close>.
\<close>

definition sequence_check :: cond_item where
  "sequence_check = SequenceConditionItem ''ret_found'' [] False [egg_2_check]"

definition sequence_do :: action_item where
  "sequence_do = SetPVActionItem ''ret_find_do'' [] ''RET:FOUND'' (PyInt 1) (1 / 100) sequence_check"

text \<open>Three checks in a row, for a sequence item.\<close>

definition guard_checks :: "cond_item list" where
  "guard_checks = [egg_2_check, egg_1_check, egg_2_check]"

text \<open>A control network on which every read is interrupted from the keyboard.\<close>

definition interrupted :: world where
  "interrupted = \<lparr>pvs = (\<lambda>_. PyInt 0), caget_fault = (\<lambda>_. Some KeyboardInterrupt),
                   caput_fault = (\<lambda>_. None), trace = []\<rparr>"

section \<open>Auxiliary facts\<close>

lemma seq_loop_True_Cons:
  "seq_loop True (cf # cfs) s =
     (case cf s of (Inl e, s') \<Rightarrow> (Inl e, s')
      | (Inr b, s') \<Rightarrow> if b then seq_loop True cfs s' else (Inr False, s'))"
  by (auto split: prod.splits sum.splits)

lemma seq_cond_func_spec: "seq_cond_func cfs s = spec_conjunction cfs s"
  unfolding seq_cond_func_def
proof (induction cfs arbitrary: s)
  case Nil
  show ?case by (simp add: eff_return_def)
next
  case (Cons cf cfs)
  show ?case
    by (simp only: seq_loop_True_Cons spec_conjunction.simps)
       (auto simp: eff_bind_def eff_return_def Cons.IH split: prod.splits sum.splits)
qed

lemma getattr_operator_value:
  "getattr_operator (ConditionOperator_value ope) = Inr (compare ope)"
  by (cases ope) (auto simp: getattr_operator_def fun_eq_iff)

lemma get_condition_function_leaf:
  "get_condition_function (ConditionItem n d p v ope) = Inr (spec_comparison p ope v)"
  by (simp add: getattr_operator_value leaf_cond_func_def spec_comparison_def)

lemma caget_eval:
  "caget key w =
     ((case caget_fault w key of Some e \<Rightarrow> Inl e | None \<Rightarrow> Inr (pvs w key)),
      w\<lparr>trace := trace w @ [Caget key]\<rparr>)"
  by (simp add: caget_def eff_bind_def emit_def split: option.splits)

lemma logger_eval: "logger lv msg w = (Inr (), w\<lparr>trace := trace w @ [Log lv msg]\<rparr>)"
  by (simp add: logger_def emit_def)

lemma caput_eval:
  "caput key v w =
     (case caput_fault w key of
        Some e \<Rightarrow> (Inl e, w\<lparr>trace := trace w @ [Caput key v]\<rparr>)
      | None \<Rightarrow> (Inr (), w\<lparr>trace := trace w @ [Caput key v], pvs := (pvs w)(key := v)\<rparr>))"
  by (simp add: caput_def eff_bind_def emit_def split: option.splits)

lemma sleep_eval:
  "sleep secs w = (if secs < 0 then (Inl ValueError, w)
                   else (Inr (), w\<lparr>trace := trace w @ [Sleep secs]\<rparr>))"
  by (simp add: sleep_def eff_raise_def emit_def)

lemma try_except_eval:
  "try_except name body w =
     (case body w of
        (Inr st, w') \<Rightarrow> (Inr st, w')
      | (Inl ex, w') \<Rightarrow>
          if isinstance_Exception ex
          then (Inr FAILURE,
                w'\<lparr>trace := trace w' @ [Log WARNING [Txt name, Txt '': work failed: '', Exn ex]]\<rparr>)
          else (Inl ex, w'))"
  by (simp add: try_except_def eff_bind_def logger_def emit_def eff_return_def
        split: prod.splits sum.splits)

lemma probe_eval: "probe i cf (s, rcd) = (fst (cf s), (snd (cf s), rcd @ [(i, fst (cf s))]))"
  by (simp add: probe_def split: prod.splits)

lemma seq_loop_probe:
  "seq_loop True (map (\<lambda>(i, cf). probe i cf) (enumerate k cfs)) (s, rcd) = (r, (s', rcd'))
   \<Longrightarrow> seq_loop True cfs s = (r, s') \<and>
       (\<exists>new. rcd' = rcd @ new \<and> map fst new = [k ..< k + length new] \<and>
          length new \<le> length cfs \<and>
          (\<forall>c \<in> set (butlast new). snd c = Inr True) \<and>
          (if new = [] then cfs = [] \<and> r = Inr True else r = snd (last new)) \<and>
          (r = Inr True \<longrightarrow> length new = length cfs))"
proof (induction cfs arbitrary: k s rcd)
  case Nil
  then show ?case by simp
next
  case (Cons cf cfs)
  obtain r0 s0 where c: "cf s = (r0, s0)" by (cases "cf s")
  show ?case
  proof (cases "r0 = Inr True")
    case True
    with Cons.prems c
    have run: "seq_loop True (map (\<lambda>(i, cf). probe i cf) (enumerate (Suc k) cfs))
                 (s0, rcd @ [(k, Inr True)]) = (r, (s', rcd'))"
      by (simp add: seq_loop_True_Cons probe_eval)
    from Cons.IH [OF run] obtain new where
      a: "seq_loop True cfs s0 = (r, s')" and
      b: "rcd' = (rcd @ [(k, Inr True)]) @ new" and
      d: "map fst new = [Suc k ..< Suc k + length new]" and
      e: "length new \<le> length cfs" and
      f: "\<forall>c \<in> set (butlast new). snd c = Inr True" and
      g: "if new = [] then cfs = [] \<and> r = Inr True else r = snd (last new)" and
      h: "r = Inr True \<longrightarrow> length new = length cfs"
      by blast
    let ?new = "(k, Inr True) # new"
    have 1: "seq_loop True (cf # cfs) s = (r, s')"
      using a c True by (simp add: seq_loop_True_Cons)
    have 2: "rcd' = rcd @ ?new" using b by simp
    have 3: "map fst ?new = [k ..< k + length ?new]"
    proof -
      have "[k ..< k + length ?new] = k # [Suc k ..< Suc k + length new]"
        by (subst upt_rec) simp
      with d show ?thesis by simp
    qed
    have 4: "length ?new \<le> length (cf # cfs)" using e by simp
    have 5: "\<forall>c \<in> set (butlast ?new). snd c = Inr True" using f by auto
    have 6: "if ?new = [] then cf # cfs = [] \<and> r = Inr True else r = snd (last ?new)"
      using g by (auto split: if_splits)
    have 7: "r = Inr True \<longrightarrow> length ?new = length (cf # cfs)" using h by simp
    from 1 2 3 4 5 6 7 show ?thesis by blast
  next
    case False
    with Cons.prems c have res: "r = r0" "s' = s0" "rcd' = rcd @ [(k, r0)]"
      by (auto simp: seq_loop_True_Cons probe_eval split: sum.splits if_splits)
    have 1: "seq_loop True (cf # cfs) s = (r, s')"
      using c False res by (auto simp: seq_loop_True_Cons split: sum.splits)
    let ?new = "[(k, r0)]"
    have "rcd' = rcd @ ?new \<and> map fst ?new = [k ..< k + length ?new] \<and>
          length ?new \<le> length (cf # cfs) \<and>
          (\<forall>c \<in> set (butlast ?new). snd c = Inr True) \<and>
          (if ?new = [] then cf # cfs = [] \<and> r = Inr True else r = snd (last ?new)) \<and>
          (r = Inr True \<longrightarrow> length ?new = length (cf # cfs))"
      using res False by simp
    with 1 show ?thesis by blast
  qed
qed

lemma SetPV_work_func_normal:
  assumes "item_pv tc = Inr key" and "caget_fault w key = None"
    and "cc (w\<lparr>trace := trace w @ [Caget key]\<rparr>) = (Inr finished, w2)"
    and "caput_fault w2 p = None" and "0 \<le> period"
  shows "SetPV_work_func n p v period tc cc w =
           (if finished then (Inr SUCCESS, w2)
            else (Inr RUNNING,
                  w2\<lparr>trace := trace w2 @
                        [Log DEBUG [Txt n, Txt '': Value is '', Val (pvs w key)],
                         Caput p v, Sleep period],
                      pvs := (pvs w2)(p := v)\<rparr>))"
  using assms
  by (simp add: SetPV_work_func_def try_except_eval SetPV_work_body_def eff_bind_def
        caget_eval logger_eval caput_eval sleep_eval lift_def eff_return_def)

lemma get_tree_action_cond:
  "get_tree_action (set_termination_check a chk) = Inr nd \<Longrightarrow>
   \<exists>work_func comp_cond. nd = ActionNode (action_name a) work_func comp_cond \<and>
      get_condition_function chk = Inr comp_cond"
  by (cases a) (auto split: sum.splits)

lemma get_tree_store:
  "\<exists>new. snd (CheckAndDoItem_get_tree self h) = h @ new"
  by (auto simp: CheckAndDoItem_get_tree_def copy_def assign_termination_check_def Let_def
        list_update_append split: sum.splits prod.splits)

lemma get_tree_times_store: "\<exists>new. get_tree_times k self h = h @ new"
proof (induction k arbitrary: h)
  case 0
  show ?case by simp
next
  case (Suc k)
  obtain new1 where 1: "snd (CheckAndDoItem_get_tree self h) = h @ new1"
    using get_tree_store by blast
  obtain new2 where "get_tree_times k self (h @ new1) = (h @ new1) @ new2"
    using Suc.IH by blast
  with 1 show ?case by simp
qed

lemma stop_work_idle:
  "\<not> do_work w \<Longrightarrow>
   stop_work w =
     (Inr (), w\<lparr>acts := acts w @
        [Logged DEBUG [Txt ''Calling stop work on '', Txt (proc_name w)],
         Logged ERROR [Txt ''Not working, not stopping work on '', Txt (proc_name w)]]\<rparr>)"
  by (simp add: stop_work_def eff_bind_def act_def)

lemma start_work_busy:
  "do_work w \<Longrightarrow>
   start_work w =
     (Inr (), w\<lparr>acts := acts w @ [Logged ERROR [Txt ''Already working, not starting work'']]\<rparr>)"
  by (simp add: start_work_def act_def)

lemma start_work_idle:
  "\<not> do_work w \<Longrightarrow>
   start_work w =
     (case work_proc w of
        Initial \<Rightarrow> (Inr (), w\<lparr>do_work := True, work_proc := Alive,
                      acts := acts w @ [FlagSet True, Launched, Logged DEBUG [Txt ''Starting work'']]\<rparr>)
      | _ \<Rightarrow> (Inl AssertionError, w\<lparr>do_work := True, acts := acts w @ [FlagSet True]\<rparr>))"
  by (cases "work_proc w")
     (simp_all add: start_work_def eff_bind_def set_do_work_def work_proc_start_def act_def)

lemma stop_work_keeps:
  "work_proc (snd (stop_work w)) = Initial \<longleftrightarrow> work_proc w = Initial"
  "launches (snd (stop_work w)) = launches w"
  by (cases "work_proc w"; cases "stop_func w"; cases "do_work w";
      simp add: stop_work_def eff_bind_def act_def set_do_work_def work_proc_terminate_def
        work_proc_join_def call_stop_func_def eff_return_def launches_def
        split: prod.splits sum.splits)+

lemma start_work_keeps:
  "launches (snd (start_work w)) = (if \<not> do_work w \<and> work_proc w = Initial then Suc (launches w) else launches w)"
  "work_proc (snd (start_work w)) = Initial \<longleftrightarrow> do_work w \<and> work_proc w = Initial"
  by (cases "work_proc w"; cases "do_work w";
      simp add: start_work_busy start_work_idle launches_def)+

lemma calls_launches:
  "(work_proc w = Initial \<longrightarrow> launches w = 0) \<Longrightarrow> launches w \<le> 1 \<Longrightarrow>
   (work_proc (calls cs w) = Initial \<longrightarrow> launches (calls cs w) = 0) \<and> launches (calls cs w) \<le> 1"
proof (induction cs arbitrary: w)
  case Nil
  then show ?case by simp
next
  case (Cons c cs)
  show ?case
  proof (cases c)
    case Start
    have "(work_proc (snd (start_work w)) = Initial \<longrightarrow> launches (snd (start_work w)) = 0)"
      "launches (snd (start_work w)) \<le> 1"
      using Cons.prems by (auto simp: start_work_keeps)
    from Cons.IH [OF this] Start show ?thesis by simp
  next
    case Stop
    have "(work_proc (snd (stop_work w)) = Initial \<longrightarrow> launches (snd (stop_work w)) = 0)"
      "launches (snd (stop_work w)) \<le> 1"
      using Cons.prems by (auto simp: stop_work_keeps)
    from Cons.IH [OF this] Stop show ?thesis by simp
  qed
qed

lemma seq_cond_func_instrumented:
  assumes "seq_cond_func (instrument cfs) (s, []) = (r, (s', rcd))"
  shows "seq_cond_func cfs s = (r, s') \<and>
         map fst rcd = [0 ..< length rcd] \<and> length rcd \<le> length cfs \<and>
         (\<forall>c \<in> set (butlast rcd). snd c = Inr True) \<and>
         (if rcd = [] then cfs = [] \<and> r = Inr True else r = snd (last rcd)) \<and>
         (r = Inr True \<longrightarrow> length rcd = length cfs)"
  using seq_loop_probe [of 0 cfs s "[]" r s' rcd] assms
  unfolding seq_cond_func_def instrument_def by auto

lemma collect_map_Inr: "collect (map Inr xs) = Inr xs"
  by (induction xs) simp_all

section \<open>The claims\<close>

text \<open>
  Claim C4. The condition function of a leaf \<open>ConditionItem\<close> reads the configured key
  once; when the read returns \<open>None\<close> it returns false; otherwise it returns what the
  configured comparison operator gives on the value read and the configured target. An
  exception of the read itself propagates.
\<close>

theorem C4_leaf_condition:
  "\<exists>cond_func. get_condition_function (ConditionItem n d p v ope) = Inr cond_func \<and>
     (\<forall>w. cond_func w =
        ((case caget_fault w p of
            Some e \<Rightarrow> Inl e
          | None \<Rightarrow> if pvs w p = PyNone then Inr False else compare ope (pvs w p) v),
         w\<lparr>trace := trace w @ [Caget p]\<rparr>))"
  by (simp add: getattr_operator_value leaf_cond_func_def eff_bind_def caget_eval
        eff_return_def lift_def split: option.splits)

text \<open>The theorem at a concrete input.\<close>

theorem C4_leaf_condition_witness:
  "\<exists>cond_func. get_condition_function egg_1_check = Inr cond_func \<and>
     cond_func (network (\<lambda>_. PyInt 40)) =
       (Inr False, (network (\<lambda>_. PyInt 40))\<lparr>trace := [Caget ''PERC:COMP'']\<rparr>) \<and>
     cond_func (network (\<lambda>_. PyInt 100)) =
       (Inr True, (network (\<lambda>_. PyInt 100))\<lparr>trace := [Caget ''PERC:COMP'']\<rparr>) \<and>
     cond_func (network (\<lambda>_. PyNone)) =
       (Inr False, (network (\<lambda>_. PyNone))\<lparr>trace := [Caget ''PERC:COMP'']\<rparr>) \<and>
     cond_func (network (\<lambda>_. PyStr ''OUT'')) =
       (Inl TypeError, (network (\<lambda>_. PyStr ''OUT''))\<lparr>trace := [Caget ''PERC:COMP'']\<rparr>)"
  using C4_leaf_condition [of "''self_test_check''" "[]" "''PERC:COMP''" "PyInt 100" greater_equal]
  unfolding egg_1_check_def by (auto simp: network_def)

text \<open>
  Claim C8. The condition function of a \<open>RangeConditionItem\<close> is, in every state of the
  control network, the conjunction of the two leaf comparisons [value \<open>\<ge>\<close> low] and
  [value \<open>\<le>\<close> high] over its key, and it is the condition function of a sequence item
  over these two leaves.
\<close>

theorem C8_range_condition:
  "\<exists>cond_func. get_condition_function (RangeConditionItem n d m p lo hi) = Inr cond_func \<and>
     (\<forall>w. cond_func w = spec_range p lo hi w)"
proof -
  have "get_condition_function (RangeConditionItem n d m p lo hi) =
          Inr (seq_cond_func [spec_comparison p greater_equal lo, spec_comparison p less_equal hi])"
    unfolding get_condition_function.simps(3) generate_subconfig_def
      get_condition_function.simps(2) list.map get_condition_function_leaf
    by simp
  then show ?thesis
    by (simp add: seq_cond_func_spec spec_range_def)
qed

text \<open>The theorem at a concrete input.\<close>

theorem C8_range_condition_witness:
  "\<exists>cond_func. get_condition_function
       (RangeConditionItem ''window'' [] False ''PERC:COMP'' (PyInt 0) (PyInt 100)) = Inr cond_func \<and>
     cond_func (network (\<lambda>_. PyInt 40)) =
       (Inr True, (network (\<lambda>_. PyInt 40))\<lparr>trace := [Caget ''PERC:COMP'', Caget ''PERC:COMP'']\<rparr>) \<and>
     cond_func (network (\<lambda>_. PyInt (- 5))) =
       (Inr False, (network (\<lambda>_. PyInt (- 5)))\<lparr>trace := [Caget ''PERC:COMP'']\<rparr>) \<and>
     cond_func (network (\<lambda>_. PyInt 101)) =
       (Inr False, (network (\<lambda>_. PyInt 101))\<lparr>trace := [Caget ''PERC:COMP'', Caget ''PERC:COMP'']\<rparr>)"
  using C8_range_condition [of "''window''" "[]" False "''PERC:COMP''" "PyInt 0" "PyInt 100"]
  by (auto simp: network_def spec_range_def spec_comparison_def eff_bind_def caget_eval
        eff_return_def lift_def)

text \<open>
  Claim C10. When the read of the increment work routine returns \<open>None\<close> and the completion
  condition evaluates to false, the routine returns \<open>FAILURE\<close>: the sum of \<open>None\<close> and the
  increment raises \<open>TypeError\<close> before anything is written.
\<close>

theorem C10_increment_unreadable:
  assumes "caget_fault w p = None" and "pvs w p = PyNone"
    and "cc (w\<lparr>trace := trace w @
               [Caget p, Log DEBUG [Txt ''(wf) '', Txt n, Txt '': Value is '', Val PyNone]]\<rparr>)
           = (Inr False, w2)"
  shows "IncPV_work_func n p inc period cc w =
           (Inr FAILURE,
            w2\<lparr>trace := trace w2 @
                 [Log WARNING [Txt n, Txt '': work failed: '', Exn TypeError]]\<rparr>)"
  using assms
  by (simp add: IncPV_work_func_def try_except_eval IncPV_work_body_def eff_bind_def
        caget_eval logger_eval lift_def)

text \<open>The theorem at a concrete input.\<close>

theorem C10_increment_unreadable_witness:
  "IncPV_work_func ''self_test_do'' ''PERC:COMP'' 10 (1 / 100)
     (spec_comparison ''PERC:COMP'' greater_equal (PyInt 100)) (network (\<lambda>_. PyNone)) =
     (Inr FAILURE, (network (\<lambda>_. PyNone))\<lparr>trace :=
        [Caget ''PERC:COMP'',
         Log DEBUG [Txt ''(wf) '', Txt ''self_test_do'', Txt '': Value is '', Val PyNone],
         Caget ''PERC:COMP'',
         Log WARNING [Txt ''self_test_do'', Txt '': work failed: '', Exn TypeError]]\<rparr>)"
  using C10_increment_unreadable [of "network (\<lambda>_. PyNone)" "''PERC:COMP''"
      "spec_comparison ''PERC:COMP'' greater_equal (PyInt 100)" "''self_test_do''" _ 10 "1 / 100"]
  by (simp add: network_def spec_comparison_def eff_bind_def caget_eval eff_return_def)

text \<open>
  Claim C2 says that neither the construction of a \<open>CheckAndDoItem\<close> nor \<open>get_tree\<close>
  changes the action object of the caller. The construction does: for the action of
  \<open>create_egg_1\<close>, \<open>__post_init__\<close> replaces the termination check of the caller's object.
\<close>

theorem C2_construction_mutates_counterexample:
  "termination_check (snd (CheckAndDoItem_init ''self_test'' [] egg_1_check 0 [egg_1_do]) ! 0)
     \<noteq> termination_check ([egg_1_do] ! 0)"
  by (simp add: CheckAndDoItem_init_def post_init_def egg_1_do_def new_ConditionItem_def
        assign_termination_check_def new_UseCheckConditionItem_def)

text \<open>
  Claim C2, amended. The construction leaves the store as it was, except that it replaces
  the termination check of the caller's action object by the marker
  \<open>UseCheckConditionItem\<close> when that check's name is empty. After the construction, any
  number of calls of \<open>get_tree\<close> leaves every object of the store, the action object in
  particular, as it was: the rebinding to the check is made on a copy.
\<close>

theorem C2_get_tree_copies:
  assumes "do_ref < length h"
    and "CheckAndDoItem_init n d chk do_ref h = (self, h1)"
  shows "h1 = (if item_name (termination_check (h ! do_ref)) = []
               then h[do_ref := set_termination_check (h ! do_ref) new_UseCheckConditionItem]
               else h) \<and>
         take (length h1) (get_tree_times k self h1) = h1 \<and>
         get_tree_times k self h1 ! do_ref = h1 ! do_ref"
proof -
  from assms(2) have 1: "h1 = (if item_name (termination_check (h ! do_ref)) = []
               then h[do_ref := set_termination_check (h ! do_ref) new_UseCheckConditionItem]
               else h)"
    by (auto simp: CheckAndDoItem_init_def post_init_def assign_termination_check_def Let_def)
  then have len: "do_ref < length h1" using assms(1) by (simp split: if_splits)
  obtain new where 2: "get_tree_times k self h1 = h1 @ new"
    using get_tree_times_store by blast
  then have 3: "get_tree_times k self h1 ! do_ref = h1 ! do_ref"
    using len by (simp add: nth_append)
  from 1 2 3 show ?thesis by simp
qed

text \<open>The theorem at a concrete input.\<close>

theorem C2_get_tree_copies_witness:
  "(0::nat) < length [egg_1_do] \<and>
   snd (CheckAndDoItem_init ''self_test'' [] egg_1_check 0 [egg_1_do]) =
     [IncPVActionItem ''self_test_do'' [] ''PERC:COMP'' 10 (1 / 100) new_UseCheckConditionItem] \<and>
   get_tree_times 3 (fst (CheckAndDoItem_init ''self_test'' [] egg_1_check 0 [egg_1_do]))
       (snd (CheckAndDoItem_init ''self_test'' [] egg_1_check 0 [egg_1_do])) ! 0 =
     IncPVActionItem ''self_test_do'' [] ''PERC:COMP'' 10 (1 / 100) new_UseCheckConditionItem"
proof -
  have l: "(0::nat) < length [egg_1_do]" by simp
  have i: "CheckAndDoItem_init ''self_test'' [] egg_1_check 0 [egg_1_do] =
             (fst (CheckAndDoItem_init ''self_test'' [] egg_1_check 0 [egg_1_do]),
              snd (CheckAndDoItem_init ''self_test'' [] egg_1_check 0 [egg_1_do]))"
    by simp
  from C2_get_tree_copies [OF l i, of 3] show ?thesis
    by (simp add: CheckAndDoItem_init_def post_init_def assign_termination_check_def
          egg_1_do_def new_ConditionItem_def Let_def)
qed

text \<open>
  Claim C6. \<open>stop_work\<close> on a worker that is not working (a new worker is not) logs an
  error and changes nothing else: no flag write, no terminate, no callback, no join.
  \<open>start_work\<close> on a worker that is working logs an error and changes nothing else: no
  process is launched. Over any sequence of calls on a new worker at most one process is
  launched.
\<close>

theorem C6_worker_misuse:
  "(\<not> do_work w \<longrightarrow>
      stop_work w =
        (Inr (), w\<lparr>acts := acts w @
           [Logged DEBUG [Txt ''Calling stop work on '', Txt (proc_name w)],
            Logged ERROR [Txt ''Not working, not stopping work on '', Txt (proc_name w)]]\<rparr>)) \<and>
   \<not> do_work (Worker_init nm sf env child) \<and>
   (do_work w \<longrightarrow>
      start_work w =
        (Inr (), w\<lparr>acts := acts w @ [Logged ERROR [Txt ''Already working, not starting work'']]\<rparr>)) \<and>
   launches (calls cs (Worker_init nm sf env child)) \<le> 1"
proof -
  have "launches (calls cs (Worker_init nm sf env child)) \<le> 1"
    using calls_launches [of "Worker_init nm sf env child" cs]
    by (simp add: Worker_init_def launches_def)
  then show ?thesis
    by (simp add: stop_work_idle start_work_busy Worker_init_def)
qed

text \<open>The theorem at a concrete input.\<close>

theorem C6_worker_misuse_witness:
  "snd (stop_work (Worker_init ''w'' None () 4242)) =
     (Worker_init ''w'' None () 4242)\<lparr>acts :=
        [Logged DEBUG [Txt ''Calling stop work on '', Txt ''w''],
         Logged ERROR [Txt ''Not working, not stopping work on '', Txt ''w'']]\<rparr> \<and>
   calls [Start, Start] (Worker_init ''w'' None () 4242) =
     (Worker_init ''w'' None () 4242)\<lparr>do_work := True, work_proc := Alive, acts :=
        [FlagSet True, Launched, Logged DEBUG [Txt ''Starting work''],
         Logged ERROR [Txt ''Already working, not starting work'']]\<rparr> \<and>
   launches (calls [Start, Start] (Worker_init ''w'' None () 4242)) \<le> 1"
proof -
  have s1: "snd (start_work (Worker_init ''w'' None () 4242)) =
     (Worker_init ''w'' None () 4242)\<lparr>do_work := True, work_proc := Alive, acts :=
        [FlagSet True, Launched, Logged DEBUG [Txt ''Starting work'']]\<rparr>"
    by (simp add: start_work_idle Worker_init_def)
  have busy: "do_work (snd (start_work (Worker_init ''w'' None () 4242)))"
    by (simp add: s1)
  from C6_worker_misuse [of "Worker_init ''w'' None () 4242" "''w''" None "()" 4242 "[Start, Start]"]
    C6_worker_misuse [of "snd (start_work (Worker_init ''w'' None () 4242))" "''w''" None "()" 4242 "[]"] busy
  show ?thesis
    by (simp add: s1) (simp add: Worker_init_def)
qed

text \<open>
  Claim C9 at a \<open>SetPVActionItem\<close> whose termination check is a \<open>SequenceConditionItem\<close>,
  with the process variable at its target: the completion condition holds, and the work
  routine returns \<open>FAILURE\<close>, because the sequence item has no attribute \<open>pv\<close>.
\<close>

theorem C9_set_work_func_sequence_check:
  "\<exists>work_func comp_cond.
     get_tree_action sequence_do = Inr (ActionNode ''ret_find_do'' work_func comp_cond) \<and>
     comp_cond (network (\<lambda>_. PyInt 1)) =
       (Inr True, (network (\<lambda>_. PyInt 1))\<lparr>trace := [Caget ''RET:FOUND'']\<rparr>) \<and>
     work_func comp_cond (network (\<lambda>_. PyInt 1)) =
       (Inr FAILURE, (network (\<lambda>_. PyInt 1))\<lparr>trace :=
          [Log WARNING [Txt ''ret_find_do'', Txt '': work failed: '', Exn AttributeError]]\<rparr>)"
  by (simp add: sequence_do_def sequence_check_def egg_2_check_def getattr_operator_def
        SetPV_work_func_def try_except_eval SetPV_work_body_def eff_bind_def lift_def
        seq_cond_func_def leaf_cond_func_def caget_eval eff_return_def network_def)

text \<open>
  Claim C1. A \<open>CheckAndDoItem\<close> is constructed over an action object whose termination
  check has the empty name, with a check that has a tree and a condition function. Then
  \<open>get_tree\<close> returns the check-and-do node over the tree of the check and an action node
  whose completion condition is the condition function of the check, so the two give the
  same result in every state of the control network. The work routine of a
  \<open>SetPVActionItem\<close> is the one bound to the check; the action is built from a copy
  allocated at the end of the store.
\<close>

theorem C1_check_is_completion_condition:
  assumes "do_ref < length h"
    and "item_name (termination_check (h ! do_ref)) = []"
    and "CheckAndDoItem_init n d chk do_ref h = (self, h1)"
    and "get_tree_cond chk = Inr check_node"
    and "get_condition_function chk = Inr cond_func"
  shows "CheckAndDoItem_get_tree self h1 =
     (Inr (CheckAndDo n check_node
            (ActionNode (action_name (h ! do_ref))
               (case h ! do_ref of
                  SetPVActionItem n' d' p v period tc \<Rightarrow> SetPV_work_func n' p v period chk
                | IncPVActionItem n' d' p inc period tc \<Rightarrow> IncPV_work_func n' p inc period)
               cond_func)),
      h1 @ [set_termination_check (h ! do_ref) chk])"
proof -
  from assms(3) have self: "cad_name self = n" "cad_check self = chk" "cad_do self = do_ref"
    and h1: "h1 = post_init self h"
    by (auto simp: CheckAndDoItem_init_def Let_def)
  from h1 self assms(1,2)
  have cell: "h1 ! do_ref = set_termination_check (h ! do_ref) new_UseCheckConditionItem"
    and len: "length h1 = length h"
    by (simp_all add: post_init_def assign_termination_check_def)
  have use: "isinstance_UseCheckConditionItem (termination_check (h1 ! do_ref))"
    unfolding cell by (cases "h ! do_ref") (simp_all add: new_UseCheckConditionItem_def)
  have store: "assign_termination_check (length h1) chk (h1 @ [h1 ! do_ref])
                 = h1 @ [set_termination_check (h ! do_ref) chk]"
    unfolding cell by (cases "h ! do_ref") (simp_all add: assign_termination_check_def)
  have node: "get_tree_action (set_termination_check (h ! do_ref) chk) =
      Inr (ActionNode (action_name (h ! do_ref))
             (case h ! do_ref of
                SetPVActionItem n' d' p v period tc \<Rightarrow> SetPV_work_func n' p v period chk
              | IncPVActionItem n' d' p inc period tc \<Rightarrow> IncPV_work_func n' p inc period)
             cond_func)"
    using assms(5) by (cases "h ! do_ref") simp_all
  show ?thesis
    using use self store node assms(4)
    by (simp add: CheckAndDoItem_get_tree_def copy_def Let_def)
qed

text \<open>The theorem at a concrete input.\<close>

theorem C1_check_is_completion_condition_witness:
  "CheckAndDoItem_get_tree (fst (CheckAndDoItem_init ''self_test'' [] egg_1_check 0 [egg_1_do]))
       (snd (CheckAndDoItem_init ''self_test'' [] egg_1_check 0 [egg_1_do])) =
     (Inr (CheckAndDo ''self_test''
            (ConditionNode ''self_test_check'' (spec_comparison ''PERC:COMP'' greater_equal (PyInt 100)))
            (ActionNode ''self_test_do'' (IncPV_work_func ''self_test_do'' ''PERC:COMP'' 10 (1 / 100))
               (spec_comparison ''PERC:COMP'' greater_equal (PyInt 100)))),
      [IncPVActionItem ''self_test_do'' [] ''PERC:COMP'' 10 (1 / 100) new_UseCheckConditionItem,
       IncPVActionItem ''self_test_do'' [] ''PERC:COMP'' 10 (1 / 100) egg_1_check]) \<and>
   CheckAndDoItem_get_tree (fst (CheckAndDoItem_init ''ret_find'' [] egg_2_check 0 [egg_2_do]))
       (snd (CheckAndDoItem_init ''ret_find'' [] egg_2_check 0 [egg_2_do])) =
     (Inr (CheckAndDo ''ret_find''
            (ConditionNode ''ret_find_check'' (spec_comparison ''RET:FOUND'' greater_equal (PyInt 1)))
            (ActionNode ''ret_find_do''
               (SetPV_work_func ''ret_find_do'' ''RET:FOUND'' (PyInt 1) (1 / 100) egg_2_check)
               (spec_comparison ''RET:FOUND'' greater_equal (PyInt 1)))),
      [SetPVActionItem ''ret_find_do'' [] ''RET:FOUND'' (PyInt 1) (1 / 100) new_UseCheckConditionItem,
       SetPVActionItem ''ret_find_do'' [] ''RET:FOUND'' (PyInt 1) (1 / 100) egg_2_check])"
proof -
  have c1: "get_condition_function egg_1_check = Inr (spec_comparison ''PERC:COMP'' greater_equal (PyInt 100))"
    unfolding egg_1_check_def by (rule get_condition_function_leaf)
  have t1: "get_tree_cond egg_1_check =
              Inr (ConditionNode ''self_test_check'' (spec_comparison ''PERC:COMP'' greater_equal (PyInt 100)))"
    using c1 by (simp add: egg_1_check_def del: get_condition_function.simps)
  have c2: "get_condition_function egg_2_check = Inr (spec_comparison ''RET:FOUND'' greater_equal (PyInt 1))"
    unfolding egg_2_check_def by (rule get_condition_function_leaf)
  have t2: "get_tree_cond egg_2_check =
              Inr (ConditionNode ''ret_find_check'' (spec_comparison ''RET:FOUND'' greater_equal (PyInt 1)))"
    using c2 by (simp add: egg_2_check_def del: get_condition_function.simps)
  have l1: "(0::nat) < length [egg_1_do]" and l2: "(0::nat) < length [egg_2_do]" by simp_all
  have n1: "item_name (termination_check ([egg_1_do] ! 0)) = []"
    and n2: "item_name (termination_check ([egg_2_do] ! 0)) = []"
    by (simp_all add: egg_1_do_def egg_2_do_def new_ConditionItem_def)
  have i1: "CheckAndDoItem_init ''self_test'' [] egg_1_check 0 [egg_1_do] =
             (fst (CheckAndDoItem_init ''self_test'' [] egg_1_check 0 [egg_1_do]),
              snd (CheckAndDoItem_init ''self_test'' [] egg_1_check 0 [egg_1_do]))"
    and i2: "CheckAndDoItem_init ''ret_find'' [] egg_2_check 0 [egg_2_do] =
             (fst (CheckAndDoItem_init ''ret_find'' [] egg_2_check 0 [egg_2_do]),
              snd (CheckAndDoItem_init ''ret_find'' [] egg_2_check 0 [egg_2_do]))"
    by simp_all
  have s1: "snd (CheckAndDoItem_init ''self_test'' [] egg_1_check 0 [egg_1_do]) =
              [IncPVActionItem ''self_test_do'' [] ''PERC:COMP'' 10 (1 / 100) new_UseCheckConditionItem]"
    and s2: "snd (CheckAndDoItem_init ''ret_find'' [] egg_2_check 0 [egg_2_do]) =
              [SetPVActionItem ''ret_find_do'' [] ''RET:FOUND'' (PyInt 1) (1 / 100) new_UseCheckConditionItem]"
    by (simp_all add: CheckAndDoItem_init_def post_init_def assign_termination_check_def
          egg_1_do_def egg_2_do_def new_ConditionItem_def Let_def)
  from C1_check_is_completion_condition [OF l1 n1 i1 t1 c1]
    C1_check_is_completion_condition [OF l2 n2 i2 t2 c2]
  show ?thesis
    unfolding s1 s2 by (simp add: egg_1_do_def egg_2_do_def)
qed

text \<open>
  Claim C3. A \<open>SequenceConditionItem\<close> whose children have condition functions has one
  itself. Run with every child's function instrumented, it calls an initial segment of
  the children in declared order; every call before the last returned true, so nothing
  is called after the first child that returns false (or raises); the result is the result
  of the last call, and true without children; the result is true only when all children
  were called and returned true. The condition function of the item gives the result and
  the state of that run.
\<close>

theorem C3_sequence_condition:
  assumes "map get_condition_function cs = map Inr child_funcs"
  shows "\<exists>cond_func. get_condition_function (SequenceConditionItem n d m cs) = Inr cond_func \<and>
     (\<forall>w r w' rcd. seq_cond_func (instrument child_funcs) (w, []) = (r, (w', rcd)) \<longrightarrow>
        cond_func w = (r, w') \<and>
        map fst rcd = [0 ..< length rcd] \<and> length rcd \<le> length cs \<and>
        (\<forall>c \<in> set (butlast rcd). snd c = Inr True) \<and>
        (if rcd = [] then cs = [] \<and> r = Inr True else r = snd (last rcd)) \<and>
        (r = Inr True \<longrightarrow> length rcd = length cs))"
proof -
  have len: "length child_funcs = length cs"
    using assms by (metis length_map)
  have "get_condition_function (SequenceConditionItem n d m cs) = Inr (seq_cond_func child_funcs)"
    by (simp add: assms collect_map_Inr)
  moreover have "\<forall>w r w' rcd. seq_cond_func (instrument child_funcs) (w, []) = (r, (w', rcd)) \<longrightarrow>
        seq_cond_func child_funcs w = (r, w') \<and>
        map fst rcd = [0 ..< length rcd] \<and> length rcd \<le> length cs \<and>
        (\<forall>c \<in> set (butlast rcd). snd c = Inr True) \<and>
        (if rcd = [] then cs = [] \<and> r = Inr True else r = snd (last rcd)) \<and>
        (r = Inr True \<longrightarrow> length rcd = length cs)"
  proof (intro allI impI)
    fix w r w' rcd
    assume run: "seq_cond_func (instrument child_funcs) (w, []) = (r, (w', rcd))"
    have nil: "child_funcs = [] \<longleftrightarrow> cs = []" using len by auto
    from seq_cond_func_instrumented [OF run] show
      "seq_cond_func child_funcs w = (r, w') \<and>
        map fst rcd = [0 ..< length rcd] \<and> length rcd \<le> length cs \<and>
        (\<forall>c \<in> set (butlast rcd). snd c = Inr True) \<and>
        (if rcd = [] then cs = [] \<and> r = Inr True else r = snd (last rcd)) \<and>
        (r = Inr True \<longrightarrow> length rcd = length cs)"
      unfolding len nil by simp
  qed
  ultimately show ?thesis by blast
qed

text \<open>The theorem at a concrete input.\<close>

theorem C3_sequence_condition_witness:
  "\<exists>cond_func. get_condition_function (SequenceConditionItem ''guard'' [] False guard_checks) = Inr cond_func \<and>
     cond_func (network (\<lambda>_. PyInt 40)) =
       (Inr False, (network (\<lambda>_. PyInt 40))\<lparr>trace := [Caget ''RET:FOUND'', Caget ''PERC:COMP'']\<rparr>)"
proof -
  let ?fs = "[spec_comparison ''RET:FOUND'' greater_equal (PyInt 1),
              spec_comparison ''PERC:COMP'' greater_equal (PyInt 100),
              spec_comparison ''RET:FOUND'' greater_equal (PyInt 1)]"
  have kids: "map get_condition_function guard_checks = map Inr ?fs"
    unfolding guard_checks_def egg_1_check_def egg_2_check_def
    by (simp only: list.map get_condition_function_leaf)
  have run: "seq_cond_func (instrument ?fs) (network (\<lambda>_. PyInt 40), []) =
      (Inr False, ((network (\<lambda>_. PyInt 40))\<lparr>trace := [Caget ''RET:FOUND'', Caget ''PERC:COMP'']\<rparr>,
                   [(0, Inr True), (1, Inr False)]))"
    by (simp add: seq_cond_func_def instrument_def enumerate_eq_zip probe_def numeral_2_eq_2
          spec_comparison_def eff_bind_def caget_eval eff_return_def lift_def network_def)
  from C3_sequence_condition [OF kids, of "''guard''" "[]" False] run
  show ?thesis by blast
qed

text \<open>
  Claim C5 says that no exception leaves a work routine. \<open>KeyboardInterrupt\<close> does: it is
  not an instance of \<open>Exception\<close>, and \<open>except Exception\<close> lets it pass, in both routines.
\<close>

theorem C5_exception_propagates_counterexample:
  "IncPV_work_func ''self_test_do'' ''PERC:COMP'' 10 (1 / 100) (eff_return False) interrupted =
     (Inl KeyboardInterrupt, interrupted\<lparr>trace := [Caget ''PERC:COMP'']\<rparr>) \<and>
   SetPV_work_func ''ret_find_do'' ''RET:FOUND'' (PyInt 1) (1 / 100) egg_2_check (eff_return False)
       interrupted =
     (Inl KeyboardInterrupt, interrupted\<lparr>trace := [Caget ''RET:FOUND'']\<rparr>)"
  by (simp add: IncPV_work_func_def SetPV_work_func_def try_except_eval IncPV_work_body_def
        SetPV_work_body_def eff_bind_def caget_eval lift_def egg_2_check_def interrupted_def)

text \<open>
  Claim C5, amended. In the work routines of \<open>SetPVActionItem\<close> and \<open>IncPVActionItem\<close>,
  an exception raised by the statements of the routine that is an instance of
  \<open>Exception\<close> is caught: the routine returns \<open>FAILURE\<close> and has logged a warning with the
  node's name and the exception. An exception that is not an instance of \<open>Exception\<close>
  leaves the routine, and nothing is logged. Without an exception the routine returns
  the status of its statements.
\<close>

theorem C5_work_func_catches:
  "(\<forall>ex w1. SetPV_work_body n p v period tc cc w = (Inl ex, w1) \<longrightarrow>
      SetPV_work_func n p v period tc cc w =
        (if isinstance_Exception ex
         then (Inr FAILURE,
               w1\<lparr>trace := trace w1 @ [Log WARNING [Txt n, Txt '': work failed: '', Exn ex]]\<rparr>)
         else (Inl ex, w1))) \<and>
   (\<forall>st w1. SetPV_work_body n p v period tc cc w = (Inr st, w1) \<longrightarrow>
      SetPV_work_func n p v period tc cc w = (Inr st, w1)) \<and>
   (\<forall>ex w1. IncPV_work_body n p inc period cc w = (Inl ex, w1) \<longrightarrow>
      IncPV_work_func n p inc period cc w =
        (if isinstance_Exception ex
         then (Inr FAILURE,
               w1\<lparr>trace := trace w1 @ [Log WARNING [Txt n, Txt '': work failed: '', Exn ex]]\<rparr>)
         else (Inl ex, w1))) \<and>
   (\<forall>st w1. IncPV_work_body n p inc period cc w = (Inr st, w1) \<longrightarrow>
      IncPV_work_func n p inc period cc w = (Inr st, w1))"
  by (simp add: SetPV_work_func_def IncPV_work_func_def try_except_eval)

text \<open>The theorem at a concrete input.\<close>

theorem C5_work_func_catches_witness:
  "IncPV_work_body ''self_test_do'' ''PERC:COMP'' 10 (1 / 100) (eff_return False)
     (network (\<lambda>_. PyStr ''OUT'')) =
     (Inl TypeError, (network (\<lambda>_. PyStr ''OUT''))\<lparr>trace :=
        [Caget ''PERC:COMP'',
         Log DEBUG [Txt ''(wf) '', Txt ''self_test_do'', Txt '': Value is '', Val (PyStr ''OUT'')]]\<rparr>) \<and>
   IncPV_work_func ''self_test_do'' ''PERC:COMP'' 10 (1 / 100) (eff_return False)
     (network (\<lambda>_. PyStr ''OUT'')) =
     (Inr FAILURE, (network (\<lambda>_. PyStr ''OUT''))\<lparr>trace :=
        [Caget ''PERC:COMP'',
         Log DEBUG [Txt ''(wf) '', Txt ''self_test_do'', Txt '': Value is '', Val (PyStr ''OUT'')],
         Log WARNING [Txt ''self_test_do'', Txt '': work failed: '', Exn TypeError]]\<rparr>) \<and>
   SetPV_work_body ''ret_find_do'' ''RET:FOUND'' (PyInt 1) (- 1) egg_2_check (eff_return False)
     (network (\<lambda>_. PyInt 0)) =
     (Inl ValueError, (network (\<lambda>_. PyInt 0))\<lparr>trace :=
        [Caget ''RET:FOUND'',
         Log DEBUG [Txt ''ret_find_do'', Txt '': Value is '', Val (PyInt 0)],
         Caput ''RET:FOUND'' (PyInt 1)],
        pvs := (\<lambda>_. PyInt 0)(''RET:FOUND'' := PyInt 1)\<rparr>) \<and>
   SetPV_work_func ''ret_find_do'' ''RET:FOUND'' (PyInt 1) (- 1) egg_2_check (eff_return False)
     (network (\<lambda>_. PyInt 0)) =
     (Inr FAILURE, (network (\<lambda>_. PyInt 0))\<lparr>trace :=
        [Caget ''RET:FOUND'',
         Log DEBUG [Txt ''ret_find_do'', Txt '': Value is '', Val (PyInt 0)],
         Caput ''RET:FOUND'' (PyInt 1),
         Log WARNING [Txt ''ret_find_do'', Txt '': work failed: '', Exn ValueError]],
        pvs := (\<lambda>_. PyInt 0)(''RET:FOUND'' := PyInt 1)\<rparr>)"
proof -
  have inc: "IncPV_work_body ''self_test_do'' ''PERC:COMP'' 10 (1 / 100) (eff_return False)
     (network (\<lambda>_. PyStr ''OUT'')) =
     (Inl TypeError, (network (\<lambda>_. PyStr ''OUT''))\<lparr>trace :=
        [Caget ''PERC:COMP'',
         Log DEBUG [Txt ''(wf) '', Txt ''self_test_do'', Txt '': Value is '', Val (PyStr ''OUT'')]]\<rparr>)"
    by (simp add: IncPV_work_body_def eff_bind_def caget_eval logger_eval eff_return_def
          lift_def network_def)
  have set: "SetPV_work_body ''ret_find_do'' ''RET:FOUND'' (PyInt 1) (- 1) egg_2_check (eff_return False)
     (network (\<lambda>_. PyInt 0)) =
     (Inl ValueError, (network (\<lambda>_. PyInt 0))\<lparr>trace :=
        [Caget ''RET:FOUND'',
         Log DEBUG [Txt ''ret_find_do'', Txt '': Value is '', Val (PyInt 0)],
         Caput ''RET:FOUND'' (PyInt 1)],
        pvs := (\<lambda>_. PyInt 0)(''RET:FOUND'' := PyInt 1)\<rparr>)"
    by (simp add: SetPV_work_body_def eff_bind_def caget_eval logger_eval caput_eval sleep_eval
          eff_return_def lift_def network_def egg_2_check_def)
  from C5_work_func_catches [of "''self_test_do''" "''PERC:COMP''" _ "1 / 100" _ "eff_return False"
      "network (\<lambda>_. PyStr ''OUT'')" 10] inc
  have 1: "IncPV_work_func ''self_test_do'' ''PERC:COMP'' 10 (1 / 100) (eff_return False)
     (network (\<lambda>_. PyStr ''OUT'')) =
     (Inr FAILURE, (network (\<lambda>_. PyStr ''OUT''))\<lparr>trace :=
        [Caget ''PERC:COMP'',
         Log DEBUG [Txt ''(wf) '', Txt ''self_test_do'', Txt '': Value is '', Val (PyStr ''OUT'')],
         Log WARNING [Txt ''self_test_do'', Txt '': work failed: '', Exn TypeError]]\<rparr>)"
    by (simp add: network_def)
  from C5_work_func_catches [of "''ret_find_do''" "''RET:FOUND''" "PyInt 1" "- 1" egg_2_check
      "eff_return False" "network (\<lambda>_. PyInt 0)"] set
  have 2: "SetPV_work_func ''ret_find_do'' ''RET:FOUND'' (PyInt 1) (- 1) egg_2_check (eff_return False)
     (network (\<lambda>_. PyInt 0)) =
     (Inr FAILURE, (network (\<lambda>_. PyInt 0))\<lparr>trace :=
        [Caget ''RET:FOUND'',
         Log DEBUG [Txt ''ret_find_do'', Txt '': Value is '', Val (PyInt 0)],
         Caput ''RET:FOUND'' (PyInt 1),
         Log WARNING [Txt ''ret_find_do'', Txt '': work failed: '', Exn ValueError]],
        pvs := (\<lambda>_. PyInt 0)(''RET:FOUND'' := PyInt 1)\<rparr>)"
    by (simp add: network_def)
  from inc set 1 2 show ?thesis by blast
qed

text \<open>
  Claim C7 says that \<open>stop_work\<close> on a started worker always joins. With a callback that
  raises it does not: the flag is cleared, the terminate signal sent, the callback called,
  and the exception leaves \<open>stop_work\<close> before the join.
\<close>

theorem C7_callback_raises_counterexample:
  "stop_work (snd (start_work (Worker_init ''w'' (Some (eff_raise ValueError)) () 4242))) =
     (Inl ValueError,
      (Worker_init ''w'' (Some (eff_raise ValueError)) () 4242)\<lparr>
        work_proc := Signalled,
        acts :=
          [FlagSet True, Launched, Logged DEBUG [Txt ''Starting work''],
           Logged DEBUG [Txt ''Calling stop work on '', Txt ''w''],
           FlagSet False,
           Logged DEBUG [Txt ''Sending terminate signal to process '', Txt ''w'', Txt '' : '',
                         Val (PyInt 4242)],
           TerminateSent, StopFuncCalled]\<rparr>)"
  by (simp add: start_work_idle Worker_init_def stop_work_def eff_bind_def act_def
        set_do_work_def work_proc_terminate_def work_proc_pid_def call_stop_func_def eff_raise_def)

text \<open>
  Claim C7, amended. On a worker that has been started, \<open>stop_work\<close> sets the flag to
  false, sends the terminate signal and calls the callback if one is configured, in this
  order. Without a callback, or when the callback returns, it then joins the process and
  returns. When the callback raises, the exception leaves \<open>stop_work\<close> and the process is
  not joined.
\<close>

theorem C7_stop_work_steps:
  assumes "do_work w" and "work_proc w \<noteq> Initial"
  shows "stop_work w =
     (let before =
            [Logged DEBUG [Txt ''Calling stop work on '', Txt (proc_name w)],
             FlagSet False,
             Logged DEBUG [Txt ''Sending terminate signal to process '', Txt (proc_name w),
                           Txt '' : '', Val (PyInt (os_pid w))],
             TerminateSent];
          after =
            [Logged DEBUG [Txt ''Ending work, calling join on '', Txt (proc_name w)],
             Joined,
             Logged DEBUG [Txt ''Worker process joined from '', Txt (proc_name w)]]
      in case stop_func w of
           None \<Rightarrow>
             (Inr (), w\<lparr>do_work := False, work_proc := Reaped, acts := acts w @ before @ after\<rparr>)
         | Some f \<Rightarrow>
             (case f (outside w) of
                (Inr u, env) \<Rightarrow>
                  (Inr (), w\<lparr>do_work := False, work_proc := Reaped, outside := env,
                             acts := acts w @ before @ [StopFuncCalled] @ after\<rparr>)
              | (Inl e, env) \<Rightarrow>
                  (Inl e, w\<lparr>do_work := False,
                            work_proc := (if work_proc w = Alive then Signalled else work_proc w),
                            outside := env,
                            acts := acts w @ before @ [StopFuncCalled]\<rparr>)))"
  using assms
  by (cases "work_proc w"; cases "stop_func w")
     (auto simp: stop_work_def eff_bind_def act_def set_do_work_def work_proc_terminate_def
        work_proc_join_def call_stop_func_def eff_return_def work_proc_pid_def Let_def
        split: prod.splits sum.splits)

text \<open>The theorem at a concrete input.\<close>

theorem C7_stop_work_steps_witness:
  "stop_work (snd (start_work (Worker_init ''w'' (Some (\<lambda>n::nat. (Inr (), Suc n))) 0 4242))) =
     (Inr (),
      (Worker_init ''w'' (Some (\<lambda>n::nat. (Inr (), Suc n))) 0 4242)\<lparr>
        work_proc := Reaped, outside := 1,
        acts :=
          [FlagSet True, Launched, Logged DEBUG [Txt ''Starting work''],
           Logged DEBUG [Txt ''Calling stop work on '', Txt ''w''],
           FlagSet False,
           Logged DEBUG [Txt ''Sending terminate signal to process '', Txt ''w'', Txt '' : '',
                         Val (PyInt 4242)],
           TerminateSent, StopFuncCalled,
           Logged DEBUG [Txt ''Ending work, calling join on '', Txt ''w''],
           Joined,
           Logged DEBUG [Txt ''Worker process joined from '', Txt ''w'']]\<rparr>)"
proof -
  let ?w = "snd (start_work (Worker_init ''w'' (Some (\<lambda>n::nat. (Inr (), Suc n))) 0 4242))"
  have a: "do_work ?w" and b: "work_proc ?w \<noteq> Initial"
    by (simp_all add: start_work_idle Worker_init_def)
  from C7_stop_work_steps [OF a b] show ?thesis
    by (simp add: start_work_idle Worker_init_def)
qed

end
